theory Spec2Isabelle
  imports Complex_Main
begin

section \<open>The SurveyResponder command line interface (cli.py)\<close>

text \<open>
  The function \<open>cli\<close> of \<open>cli.py\<close> parses the command line with argparse and then
  dispatches on the subcommand: \<open>questions\<close> lists or edits a plain-text questions file,
  \<open>run\<close> validates its arguments, constructs a \<open>SurveyResponder\<close> and calls its
  \<open>run_write\<close>. The embedding starts from the namespace that \<open>parse_args\<close> returns and
  makes every effect explicit: the file system is a value that is passed in and returned,
  the two output streams are the lists of the lines that \<open>cli\<close> prints,
  \<open>sys.exit\<close> and an exception that leaves \<open>cli\<close> are outcomes, and the calls
  made on the delegate are recorded in order.
\<close>

subsection \<open>Python strings\<close>

text \<open>
  A Python string is a \<open>string\<close>; a \<open>char\<close> stands for a code point below 256.
  \<open>str.isspace\<close> holds for exactly these code points in that range.
\<close>

definition whitespace :: "char list" where
  "whitespace =
     [CHR 0x09, CHR 0x0A, CHR 0x0B, CHR 0x0C, CHR 0x0D, CHR 0x1C, CHR 0x1D, CHR 0x1E,
      CHR 0x1F, CHR 0x20, CHR 0x85, CHR 0xA0]"

definition isspace :: "char \<Rightarrow> bool" where
  "isspace c = (c \<in> set whitespace)"

definition lstrip :: "string \<Rightarrow> string" where
  "lstrip s = dropWhile isspace s"

definition rstrip :: "string \<Rightarrow> string" where
  "rstrip s = rev (dropWhile isspace (rev s))"

text \<open>\<open>s.strip()\<close>: leading and trailing whitespace removed.\<close>

definition strip :: "string \<Rightarrow> string" where
  "strip s = rstrip (lstrip s)"

text \<open>
  \<open>s.split(sep)\<close> for a one-character separator: the pieces between the separators,
  empty pieces included, so that the result is never the empty list.
\<close>

fun str_split :: "char \<Rightarrow> string \<Rightarrow> string list" where
  "str_split sep [] = [[]]"
| "str_split sep (c # cs) =
     (if c = sep then [] # str_split sep cs
      else (case str_split sep cs of
              [] \<Rightarrow> [[c]]
            | t # ts \<Rightarrow> (c # t) # ts))"

text \<open>\<open>str(i)\<close> for an integer, as an f-string formats it.\<close>

definition digit_char :: "nat \<Rightarrow> char" where
  "digit_char d = ''0123456789'' ! d"

fun str_nat :: "nat \<Rightarrow> string" where
  "str_nat n = (if n < 10 then [digit_char n] else str_nat (n div 10) @ [digit_char (n mod 10)])"

declare str_nat.simps [simp del]

definition str_int :: "int \<Rightarrow> string" where
  "str_int i = (if i < 0 then CHR ''-'' # str_nat (nat (- i)) else str_nat (nat i))"

text \<open>Truthiness of an optional string and of an optional integer (\<open>None\<close> is false).\<close>

definition str_truthy :: "string option \<Rightarrow> bool" where
  "str_truthy v = (case v of None \<Rightarrow> False | Some s \<Rightarrow> s \<noteq> [])"

definition int_truthy :: "int option \<Rightarrow> bool" where
  "int_truthy v = (case v of None \<Rightarrow> False | Some i \<Rightarrow> i \<noteq> 0)"

text \<open>
  A float as argparse's \<open>type=float\<close> can produce it: a finite value (a real number; the
  two zeros compare equal), an infinity or a NaN. Comparisons are exact on floats, and any
  comparison with a NaN is false.
\<close>

datatype pyfloat = Finite real | PosInf | NegInf | NaN

fun float_le :: "pyfloat \<Rightarrow> pyfloat \<Rightarrow> bool" where
  "float_le NaN y = False"
| "float_le x NaN = False"
| "float_le NegInf y = True"
| "float_le x PosInf = True"
| "float_le PosInf y = False"
| "float_le x NegInf = False"
| "float_le (Finite a) (Finite b) = (a \<le> b)"

fun float_lt :: "pyfloat \<Rightarrow> pyfloat \<Rightarrow> bool" where
  "float_lt NaN y = False"
| "float_lt x NaN = False"
| "float_lt PosInf y = False"
| "float_lt x NegInf = False"
| "float_lt NegInf y = True"
| "float_lt x PosInf = True"
| "float_lt (Finite a) (Finite b) = (a < b)"

subsection \<open>Exceptions and outcomes\<close>

text \<open>
  An exception is its class, as far as the \<open>except\<close> clauses of \<open>cli\<close> tell classes
  apart, and its message \<open>str(e)\<close>. A subclass counts as the listed class it derives from;
  \<open>OtherException\<close> is any other class deriving from \<open>Exception\<close> (for example
  \<open>IsADirectoryError\<close>), \<open>NonException\<close> one deriving from \<open>BaseException\<close> only
  (\<open>KeyboardInterrupt\<close>, \<open>SystemExit\<close>).
\<close>

datatype exn_class = FileNotFoundError | ValueError | ConnectionError | OtherException | NonException

datatype exn = Exn exn_class string

text \<open>
  How a call of \<open>cli\<close> ends: it returns, it calls \<open>sys.exit\<close> with a status, or an
  exception leaves it.
\<close>

datatype outcome = Returned | Exited int | Uncaught exn

subsection \<open>The file system\<close>

text \<open>
  A path names a regular file with its text, a directory, or nothing; paths are taken
  as they are written, and a relative path without a directory part lies in the current
  directory, which exists. Opening a file fails on a directory, and creating one fails
  when the path is empty, ends in a slash or has no directory to hold it; permissions are
  not modelled.
\<close>

datatype node = File string | Dir

type_synonym filesystem = "string \<Rightarrow> node option"

text \<open>\<open>os.path.exists\<close>\<close>

definition path_exists :: "filesystem \<Rightarrow> string \<Rightarrow> bool" where
  "path_exists fs p = (fs p \<noteq> None)"

text \<open>
  \<open>os.path.dirname\<close> (posixpath): the path up to and including its last slash, with the
  trailing slashes removed unless the head consists of slashes only.
\<close>

definition dirname :: "string \<Rightarrow> string" where
  "dirname p =
     (let head = rev (dropWhile (\<lambda>c. c \<noteq> CHR ''/'') (rev p))
      in if head \<noteq> [] \<and> \<not> list_all (\<lambda>c. c = CHR ''/'') head
         then rev (dropWhile (\<lambda>c. c = CHR ''/'') (rev head))
         else head)"

text \<open>
  The directory that has to hold a file created at \<open>p\<close>: the directory part of the
  path without its trailing slashes.
\<close>

definition parent_dir :: "string \<Rightarrow> string" where
  "parent_dir p = dirname (rev (dropWhile (\<lambda>c. c = CHR ''/'') (rev p)))"

text \<open>
  What \<open>open\<close> raises when it has to create a file at an absent path, if anything:
  \<open>FileNotFoundError\<close> for the empty path and for a missing parent directory,
  \<open>NotADirectoryError\<close> when the parent is a regular file, \<open>IsADirectoryError\<close> for a
  path that ends in a slash.
\<close>

definition create_error :: "filesystem \<Rightarrow> string \<Rightarrow> exn option" where
  "create_error fs p =
     (if p = [] then Some (Exn FileNotFoundError (''No such file or directory: '' @ p))
      else
        (case (if parent_dir p = [] then Some Dir else fs (parent_dir p)) of
           None \<Rightarrow> Some (Exn FileNotFoundError (''No such file or directory: '' @ p))
         | Some (File c) \<Rightarrow> Some (Exn OtherException (''Not a directory: '' @ p))
         | Some Dir \<Rightarrow>
             if last p = CHR ''/'' then Some (Exn OtherException (''Is a directory: '' @ p))
             else None))"

text \<open>
  \<open>open(p, "a")\<close>, writing \<open>txt\<close>, then closing: the file is created when absent,
  if it can be.
\<close>

definition open_append :: "filesystem \<Rightarrow> string \<Rightarrow> string \<Rightarrow> exn + filesystem" where
  "open_append fs p txt =
     (case fs p of
        None \<Rightarrow>
          (case create_error fs p of
             Some e \<Rightarrow> Inl e
           | None \<Rightarrow> Inr (fs(p \<mapsto> File txt)))
      | Some (File c) \<Rightarrow> Inr (fs(p \<mapsto> File (c @ txt)))
      | Some Dir \<Rightarrow> Inl (Exn OtherException (''Is a directory: '' @ p)))"

text \<open>
  \<open>open(p, "w")\<close>, writing \<open>txt\<close>, then closing: the old text is discarded, and
  the file is created when absent, if it can be.
\<close>

definition open_write :: "filesystem \<Rightarrow> string \<Rightarrow> string \<Rightarrow> exn + filesystem" where
  "open_write fs p txt =
     (case fs p of
        None \<Rightarrow>
          (case create_error fs p of
             Some e \<Rightarrow> Inl e
           | None \<Rightarrow> Inr (fs(p \<mapsto> File txt)))
      | Some (File c) \<Rightarrow> Inr (fs(p \<mapsto> File txt))
      | Some Dir \<Rightarrow> Inl (Exn OtherException (''Is a directory: '' @ p)))"

subsection \<open>The questions file\<close>

text \<open>
  The lines of a text, each without its terminating newline; a last line without a
  newline counts, the empty text has no line.
\<close>

fun file_lines :: "string \<Rightarrow> string list" where
  "file_lines [] = []"
| "file_lines (c # cs) =
     (if c = CHR ''\<newline>'' then [] # file_lines cs
      else (case file_lines cs of
              [] \<Rightarrow> [[c]]
            | l # ls \<Rightarrow> (c # l) # ls))"

text \<open>
  Modelled from the spec: \<open>load_questions\<close> is imported from the \<open>SurveyResponder\<close>
  module, which is not part of the sources at hand. The spec describes a questions file
  as "an ordered sequence of newline-terminated text lines, each a question string", where
  "line number = 1-based index shown to users and used for deletion"; so
  \<open>load_questions\<close> returns the lines of the file in order. Reading a missing path or a
  directory raises, as \<open>open\<close> does.
\<close>

definition load_questions :: "filesystem \<Rightarrow> string \<Rightarrow> exn + string list" where
  "load_questions fs p =
     (case fs p of
        None \<Rightarrow> Inl (Exn FileNotFoundError (''No such file or directory: '' @ p))
      | Some Dir \<Rightarrow> Inl (Exn OtherException (''Is a directory: '' @ p))
      | Some (File c) \<Rightarrow> Inr (file_lines c))"

text \<open>The text that the loop \<open>for q in questions: f.write(q + "\n")\<close> writes.\<close>

fun write_questions :: "string list \<Rightarrow> string" where
  "write_questions [] = []"
| "write_questions (q # questions) = (q @ ''\<newline>'') @ write_questions questions"

text \<open>\<open>questions.pop(index)\<close> for an index within range: the element and the rest.\<close>

definition pop :: "'a list \<Rightarrow> nat \<Rightarrow> 'a \<times> 'a list" where
  "pop xs index = (xs ! index, take index xs @ drop (Suc index) xs)"

text \<open>The lines \<open>f"{i}. {question}"\<close> for \<open>enumerate(questions, i)\<close>.\<close>

fun list_lines :: "int \<Rightarrow> string list \<Rightarrow> string list" where
  "list_lines i [] = []"
| "list_lines i (question # questions) =
     (str_int i @ ''. '' @ question) # list_lines (i + 1) questions"

subsection \<open>Arguments, the delegate and results\<close>

text \<open>The namespace of the \<open>questions\<close> subcommand and of the \<open>run\<close> subcommand.\<close>

record questions_args =
  arg_file :: string
  arg_list :: bool
  arg_add :: "string option"
  arg_delete :: "int option"

record run_args =
  arg_questions :: string
  arg_persona :: string
  arg_model :: string
  arg_num_responses :: int
  arg_temperature :: pyfloat
  arg_response_options :: "string option"
  arg_output :: string

text \<open>\<open>args.command\<close> with the arguments that belong to it; \<open>NoCommand\<close> is \<open>None\<close>.\<close>

datatype command = NoCommand | Questions questions_args | Run run_args

text \<open>The keyword arguments of the \<open>SurveyResponder\<close> constructor.\<close>

record responder_config =
  questions_path :: string
  persona_path :: string
  model_name :: string
  response_options :: "string list option"
  num_responses :: int
  temperature :: pyfloat

text \<open>
  The delegate is outside \<open>cli.py\<close>, so it is a parameter: its constructor returns a
  responder or raises, its \<open>run_write\<close> may change the file system and may raise.
\<close>

record 'r delegate =
  SurveyResponder :: "responder_config \<Rightarrow> filesystem \<Rightarrow> exn + 'r"
  run_write :: "'r \<Rightarrow> string \<Rightarrow> filesystem \<Rightarrow> exn option \<times> filesystem"

datatype call = Construct responder_config | RunWrite string

record result =
  outcome :: outcome
  stdout :: "string list"
  stderr :: "string list"
  fsys :: filesystem
  calls :: "call list"

subsection \<open>The questions subcommand\<close>

text \<open>An exception that nothing catches: it leaves \<open>cli\<close>.\<close>

definition propagate :: "exn \<Rightarrow> filesystem \<Rightarrow> call list \<Rightarrow> result" where
  "propagate e fs cs = \<lparr>outcome = Uncaught e, stdout = [], stderr = [], fsys = fs, calls = cs\<rparr>"

text \<open>\<open>print(msg, file=sys.stderr); sys.exit(1)\<close>\<close>

definition fail :: "string \<Rightarrow> filesystem \<Rightarrow> call list \<Rightarrow> result" where
  "fail msg fs cs = \<lparr>outcome = Exited 1, stdout = [], stderr = [msg], fsys = fs, calls = cs\<rparr>"

text \<open>The chain \<open>if args.list: ... elif args.add: ... elif args.delete: ... else: ...\<close>\<close>

definition questions_action :: "questions_args \<Rightarrow> filesystem \<Rightarrow> result" where
  "questions_action args fs =
     (let file_path = arg_file args in
      if arg_list args then
        (case load_questions fs file_path of
           Inl e \<Rightarrow> propagate e fs []
         | Inr questions \<Rightarrow>
             \<lparr>outcome = Returned, stdout = list_lines 1 questions, stderr = [],
              fsys = fs, calls = []\<rparr>)
      else if str_truthy (arg_add args) then
        (case open_append fs file_path (strip (the (arg_add args)) @ ''\<newline>'') of
           Inl e \<Rightarrow> propagate e fs []
         | Inr fs' \<Rightarrow>
             \<lparr>outcome = Returned,
              stdout = [''Added question: '' @ strip (the (arg_add args))], stderr = [],
              fsys = fs', calls = []\<rparr>)
      else if int_truthy (arg_delete args) then
        (case load_questions fs file_path of
           Inl e \<Rightarrow> propagate e fs []
         | Inr questions \<Rightarrow>
             (let index = the (arg_delete args) - 1 in
              if index < 0 \<or> index \<ge> int (length questions) then
                fail (''Invalid line number: '' @ str_int (the (arg_delete args))) fs []
              else
                (let (removed, questions') = pop questions (nat index) in
                 case open_write fs file_path (write_questions questions') of
                   Inl e \<Rightarrow> propagate e fs []
                 | Inr fs' \<Rightarrow>
                     \<lparr>outcome = Returned, stdout = [''Deleted question: '' @ removed],
                      stderr = [], fsys = fs', calls = []\<rparr>)))
      else fail ''No action specified. Use --list, --add, or --delete.'' fs [])"

text \<open>The branch \<open>args.command == "questions"\<close>: the file is created first when adding.\<close>

definition cli_questions :: "questions_args \<Rightarrow> filesystem \<Rightarrow> result" where
  "cli_questions args fs =
     (let file_path = arg_file args in
      if \<not> path_exists fs file_path then
        (if str_truthy (arg_add args) then
           (case open_append fs file_path [] of
              Inl e \<Rightarrow> propagate e fs []
            | Inr fs' \<Rightarrow> questions_action args fs')
         else fail (''Questions file not found: '' @ file_path) fs [])
      else questions_action args fs)"

subsection \<open>The run subcommand\<close>

text \<open>The loop over \<open>split_options\<close>, appending each stripped option that is not empty
  to the list \<open>response_options\<close> built so far (\<open>acc\<close>).\<close>

fun collect_options :: "string list \<Rightarrow> string list \<Rightarrow> string list" where
  "collect_options [] acc = acc"
| "collect_options (option # split_options) acc =
     (let stripped = strip option in
      if stripped \<noteq> [] then collect_options split_options (acc @ [stripped])
      else collect_options split_options acc)"

definition parse_response_options :: "string option \<Rightarrow> string list option" where
  "parse_response_options arg =
     (if str_truthy arg then Some (collect_options (str_split CHR '','' (the arg)) [])
      else None)"

text \<open>The checks of the \<open>try\<close> block, in the order of the source; each raises or passes.\<close>

definition check_questions :: "run_args \<Rightarrow> filesystem \<Rightarrow> exn + unit" where
  "check_questions args fs =
     (if \<not> path_exists fs (arg_questions args)
      then Inl (Exn FileNotFoundError (''Questions file not found: '' @ arg_questions args))
      else Inr ())"

definition check_persona :: "run_args \<Rightarrow> filesystem \<Rightarrow> exn + unit" where
  "check_persona args fs =
     (if \<not> path_exists fs (arg_persona args)
      then Inl (Exn FileNotFoundError (''Persona file not found: '' @ arg_persona args))
      else Inr ())"

definition check_output_dir :: "run_args \<Rightarrow> filesystem \<Rightarrow> exn + unit" where
  "check_output_dir args fs =
     (let output_dir = dirname (arg_output args) in
      if output_dir \<noteq> [] \<and> \<not> path_exists fs output_dir
      then Inl (Exn FileNotFoundError (''Output directory does not exist: '' @ output_dir))
      else Inr ())"

definition check_response_options :: "string list option \<Rightarrow> exn + unit" where
  "check_response_options ro =
     (if ro \<noteq> None \<and> length (the ro) \<le> 2
      then Inl (Exn ValueError ''You must provide at least 2 response options.'')
      else Inr ())"

definition check_temperature :: "pyfloat \<Rightarrow> exn + unit" where
  "check_temperature t =
     (if \<not> (float_le (Finite 0) t \<and> float_le t (Finite 2))
      then Inl (Exn ValueError ''Temperature must be between 0.0 and 2.0'')
      else Inr ())"

definition validate :: "run_args \<Rightarrow> string list option \<Rightarrow> filesystem \<Rightarrow> exn + unit" where
  "validate args ro fs =
     (case check_questions args fs of
        Inl e \<Rightarrow> Inl e
      | Inr _ \<Rightarrow>
          (case check_persona args fs of
             Inl e \<Rightarrow> Inl e
           | Inr _ \<Rightarrow>
               (case check_output_dir args fs of
                  Inl e \<Rightarrow> Inl e
                | Inr _ \<Rightarrow>
                    (case check_response_options ro of
                       Inl e \<Rightarrow> Inl e
                     | Inr _ \<Rightarrow> check_temperature (arg_temperature args)))))"

definition make_config :: "run_args \<Rightarrow> string list option \<Rightarrow> responder_config" where
  "make_config args ro =
     \<lparr>questions_path = arg_questions args, persona_path = arg_persona args,
      model_name = arg_model args, response_options = ro,
      num_responses = arg_num_responses args, temperature = arg_temperature args\<rparr>"

text \<open>
  The \<open>except\<close> clauses, first match first; each prints to standard error and calls
  \<open>sys.exit(1)\<close>. \<open>except Exception\<close> does not match a \<open>NonException\<close>.
\<close>

fun except_clauses :: "exn \<Rightarrow> filesystem \<Rightarrow> call list \<Rightarrow> result" where
  "except_clauses (Exn FileNotFoundError m) fs cs = fail (''File Error: '' @ m) fs cs"
| "except_clauses (Exn ValueError m) fs cs = fail (''Input Error: '' @ m) fs cs"
| "except_clauses (Exn ConnectionError m) fs cs = fail (''Connection Error: '' @ m) fs cs"
| "except_clauses (Exn OtherException m) fs cs = fail (''Unexpected Error: '' @ m) fs cs"
| "except_clauses (Exn NonException m) fs cs = propagate (Exn NonException m) fs cs"

text \<open>
  The branch \<open>args.command == "run"\<close>: the \<open>try\<close> block holds the checks and the
  construction; \<open>responder.run_write(args.output)\<close> comes after it, outside.
\<close>

definition cli_run :: "'r delegate \<Rightarrow> run_args \<Rightarrow> filesystem \<Rightarrow> result" where
  "cli_run d args fs =
     (let ro = parse_response_options (arg_response_options args) in
      case validate args ro fs of
        Inl e \<Rightarrow> except_clauses e fs []
      | Inr _ \<Rightarrow>
          (let cfg = make_config args ro in
           case SurveyResponder d cfg fs of
             Inl e \<Rightarrow> except_clauses e fs [Construct cfg]
           | Inr responder \<Rightarrow>
               (case run_write d responder (arg_output args) fs of
                  (Some e, fs') \<Rightarrow>
                     propagate e fs' [Construct cfg, RunWrite (arg_output args)]
                | (None, fs') \<Rightarrow>
                     \<lparr>outcome = Returned, stdout = [], stderr = [], fsys = fs',
                      calls = [Construct cfg, RunWrite (arg_output args)]\<rparr>)))"

definition cli :: "'r delegate \<Rightarrow> command \<Rightarrow> filesystem \<Rightarrow> result" where
  "cli d cmd fs =
     (case cmd of
        Questions args \<Rightarrow> cli_questions args fs
      | Run args \<Rightarrow> cli_run d args fs
      | NoCommand \<Rightarrow>
          \<lparr>outcome = Returned, stdout = [], stderr = [], fsys = fs, calls = []\<rparr>)"

subsection \<open>Auxiliary notions for stating the properties\<close>

text \<open>
  The labels as the specification words them: the string is split on commas, each token
  is trimmed, and the tokens that became empty are dropped.
\<close>

definition spec_labels :: "string \<Rightarrow> string list" where
  "spec_labels s = filter (\<lambda>t. t \<noteq> []) (map strip (str_split CHR '','' s))"

text \<open>
  The response options and the constructor arguments that \<open>cli\<close> computes from the
  arguments of \<open>run\<close>.
\<close>

abbreviation parsed_options :: "run_args \<Rightarrow> string list option" where
  "parsed_options a \<equiv> parse_response_options (arg_response_options a)"

abbreviation run_config :: "run_args \<Rightarrow> responder_config" where
  "run_config a \<equiv> make_config a (parsed_options a)"



abbreviation delete_args :: "string \<Rightarrow> int \<Rightarrow> questions_args" where
  "delete_args p i \<equiv> \<lparr>arg_file = p, arg_list = False, arg_add = None, arg_delete = Some i\<rparr>"



text \<open>
  A stand-in delegate for concrete runs: its constructor raises \<open>ce\<close> if given, its
  \<open>run_write\<close> raises \<open>re\<close> if given and writes an empty output file otherwise.
\<close>

definition stub_delegate :: "exn option \<Rightarrow> exn option \<Rightarrow> unit delegate" where
  "stub_delegate ce re =
     \<lparr>SurveyResponder = (\<lambda>cfg fs. case ce of None \<Rightarrow> Inr () | Some e \<Rightarrow> Inl e),
      run_write = (\<lambda>r out fs. case re of None \<Rightarrow> (None, fs(out \<mapsto> File []))
                                     | Some e \<Rightarrow> (Some e, fs))\<rparr>"

text \<open>
  A file system with a questions file of two questions and a persona file, and the
  default arguments of the \<open>run\<close> subcommand.
\<close>

definition sample_fs :: filesystem where
  "sample_fs =
     [''questions.txt'' \<mapsto> File ''Q1\<newline>Q2\<newline>'', ''persona.json'' \<mapsto> File ''{}'']"

definition default_run_args :: run_args where
  "default_run_args =
     \<lparr>arg_questions = ''questions.txt'', arg_persona = ''persona.json'',
      arg_model = ''llama3.1:latest'', arg_num_responses = 10, arg_temperature = Finite 1,
      arg_response_options = None, arg_output = ''results.csv''\<rparr>"

section \<open>Properties\<close>

subsection \<open>Parsing the response options\<close>

lemma collect_options_eq:
  "collect_options ts acc = acc @ filter (\<lambda>t. t \<noteq> []) (map strip ts)"
  by (induction ts arbitrary: acc) (simp_all add: Let_def)

text \<open>
  Claim C5. For every non-empty \<open>--response-options\<close> string, the \<open>run\<close> subcommand
  parses it by splitting on commas, trimming each token and dropping the tokens that
  become empty, which gives a list of non-empty labels; in particular the string
  \<open>A,B,C\<close> parses to the three labels \<open>A\<close>, \<open>B\<close>, \<open>C\<close>.
\<close>

theorem parse_response_options_labels:
  "(s \<noteq> [] \<longrightarrow>
      parse_response_options (Some s) = Some (spec_labels s) \<and>
      (\<forall>l \<in> set (spec_labels s). l \<noteq> [])) \<and>
   parse_response_options (Some ''A,B,C'') = Some [''A'', ''B'', ''C'']"
proof -
  have general: "parse_response_options (Some t) = Some (spec_labels t)" if "t \<noteq> []" for t
    using that
    by (simp add: parse_response_options_def str_truthy_def spec_labels_def collect_options_eq)
  have labels: "\<forall>l \<in> set (spec_labels s). l \<noteq> []"
    by (simp add: spec_labels_def)
  have "spec_labels ''A,B,C'' = [''A'', ''B'', ''C'']"
    by (simp add: spec_labels_def strip_def lstrip_def rstrip_def isspace_def whitespace_def)
  with general [of "''A,B,C''"] have "parse_response_options (Some ''A,B,C'') = Some [''A'', ''B'', ''C'']"
    by simp
  with general labels show ?thesis by blast
qed

theorem parse_response_options_labels_witness:
  "'' yes, ,no,,maybe '' \<noteq> [] \<and>
   parse_response_options (Some '' yes, ,no,,maybe '') = Some (spec_labels '' yes, ,no,,maybe '') \<and>
   spec_labels '' yes, ,no,,maybe '' = [''yes'', ''no'', ''maybe'']"
  using parse_response_options_labels [of "'' yes, ,no,,maybe ''"]
  by (simp add: spec_labels_def strip_def lstrip_def rstrip_def isspace_def whitespace_def)

subsection \<open>Lines of a questions file\<close>

lemma file_lines_no_newline: "l \<in> set (file_lines c) \<Longrightarrow> CHR ''\<newline>'' \<notin> set l"
  by (induction c arbitrary: l) (auto split: if_splits list.splits)

lemma file_lines_line:
  "CHR ''\<newline>'' \<notin> set q \<Longrightarrow> file_lines (q @ CHR ''\<newline>'' # c) = q # file_lines c"
  by (induction q) auto

lemma file_lines_write_questions:
  "\<forall>q \<in> set qs. CHR ''\<newline>'' \<notin> set q \<Longrightarrow> file_lines (write_questions qs) = qs"
  by (induction qs) (simp_all add: file_lines_line)



lemma length_list_lines: "length (list_lines i qs) = length qs"
  by (induction qs arbitrary: i) simp_all





lemmas strip_defs = strip_def lstrip_def rstrip_def isspace_def whitespace_def

subsection \<open>Adding a question\<close>




subsection \<open>Deleting a question\<close>

text \<open>
  Claim C4. For every questions file with \<open>n\<close> lines and every index \<open>i\<close> with
  \<open>1 \<le> i \<le> n\<close>, \<open>--delete i\<close> rewrites the file so that exactly line \<open>i\<close> is
  removed and the remaining lines keep their order: the lines of the new file are the
  first \<open>i - 1\<close> lines followed by the lines after line \<open>i\<close>. The command returns
  normally and reports the removed line.
\<close>

theorem delete_in_range:
  assumes "fs p = Some (File c)" and "1 \<le> i" and "i \<le> int (length (file_lines c))"
  shows "outcome (cli d (Questions (delete_args p i)) fs) = Returned \<and>
     fsys (cli d (Questions (delete_args p i)) fs) =
       fs(p \<mapsto> File (write_questions (take (nat i - 1) (file_lines c) @ drop (nat i) (file_lines c)))) \<and>
     file_lines (write_questions (take (nat i - 1) (file_lines c) @ drop (nat i) (file_lines c))) =
       take (nat i - 1) (file_lines c) @ drop (nat i) (file_lines c) \<and>
     stdout (cli d (Questions (delete_args p i)) fs) =
       [''Deleted question: '' @ file_lines c ! (nat i - 1)]"
proof -
  let ?ls = "file_lines c"
  let ?rest = "take (nat i - 1) ?ls @ drop (nat i) ?ls"
  have idx: "nat (i - 1) = nat i - 1" "Suc (nat i - 1) = nat i"
    using assms(2) by simp_all
  have "\<forall>q \<in> set ?rest. CHR ''\<newline>'' \<notin> set q"
    by (auto dest: in_set_takeD in_set_dropD file_lines_no_newline)
  then have lines: "file_lines (write_questions ?rest) = ?rest"
    by (rule file_lines_write_questions)
  have run: "cli d (Questions (delete_args p i)) fs =
      \<lparr>outcome = Returned, stdout = [''Deleted question: '' @ ?ls ! (nat i - 1)], stderr = [],
       fsys = fs(p \<mapsto> File (write_questions ?rest)), calls = []\<rparr>"
    using assms idx
    by (simp add: cli_def cli_questions_def questions_action_def str_truthy_def int_truthy_def
        path_exists_def load_questions_def Let_def pop_def open_write_def)
  show ?thesis
    unfolding run using lines by simp
qed

theorem delete_in_range_witness:
  "sample_fs ''questions.txt'' = Some (File ''Q1\<newline>Q2\<newline>'') \<and>
   file_lines ''Q1\<newline>Q2\<newline>'' = [''Q1'', ''Q2''] \<and>
   outcome (cli (stub_delegate None None)
      (Questions (delete_args ''questions.txt'' 1))
      sample_fs) = Returned \<and>
   fsys (cli (stub_delegate None None)
      (Questions (delete_args ''questions.txt'' 1))
      sample_fs) ''questions.txt'' = Some (File ''Q2\<newline>'') \<and>
   stdout (cli (stub_delegate None None)
      (Questions (delete_args ''questions.txt'' 1))
      sample_fs) = [''Deleted question: Q1'']"
  using delete_in_range [where fs = sample_fs and p = "''questions.txt''"
      and c = "''Q1\<newline>Q2\<newline>''" and i = 1 and d = "stub_delegate None None"]
  by (simp add: sample_fs_def)

text \<open>
  Claim C2. For every questions file and every delete argument \<open>i\<close> with \<open>i < 1\<close>
  or \<open>i\<close> greater than the number of lines of the file, \<open>--delete i\<close> exits with
  status 1 and leaves the file system, and so the contents of the questions file,
  unchanged.
\<close>

theorem delete_out_of_range:
  assumes "fs p = Some (File c)" and "i < 1 \<or> int (length (file_lines c)) < i"
  shows "outcome (cli d (Questions (delete_args p i)) fs) = Exited 1 \<and>
     fsys (cli d (Questions (delete_args p i)) fs) = fs"
  using assms
  by (auto simp add: cli_def cli_questions_def questions_action_def str_truthy_def int_truthy_def
      fail_def path_exists_def load_questions_def Let_def)

theorem delete_out_of_range_witness:
  "sample_fs ''questions.txt'' = Some (File ''Q1\<newline>Q2\<newline>'') \<and>
   int (length (file_lines ''Q1\<newline>Q2\<newline>'')) < 3 \<and>
   outcome (cli (stub_delegate None None)
      (Questions (delete_args ''questions.txt'' 3))
      sample_fs) = Exited 1 \<and>
   fsys (cli (stub_delegate None None)
      (Questions (delete_args ''questions.txt'' 3))
      sample_fs) = sample_fs"
  using delete_out_of_range [where fs = sample_fs and p = "''questions.txt''"
      and c = "''Q1\<newline>Q2\<newline>''" and i = 3 and d = "stub_delegate None None"]
  by (simp add: sample_fs_def)

text \<open>
  Claim C9. For every existing questions file, \<open>--delete 0\<close> does not report an invalid
  line number: the argument 0 is falsy, so the command behaves as if no action were given,
  prints the no-action message to standard error and nothing else, exits with status 1 and
  leaves the file system unchanged.
\<close>

theorem delete_zero_no_action:
  assumes "path_exists fs p"
  shows "cli d (Questions (delete_args p 0)) fs =
     \<lparr>outcome = Exited 1, stdout = [],
      stderr = [''No action specified. Use --list, --add, or --delete.''],
      fsys = fs, calls = []\<rparr>"
  using assms
  by (simp add: cli_def cli_questions_def questions_action_def str_truthy_def int_truthy_def fail_def)

theorem delete_zero_no_action_witness:
  "path_exists sample_fs ''questions.txt'' \<and>
   outcome (cli (stub_delegate None None)
      (Questions (delete_args ''questions.txt'' 0))
      sample_fs) = Exited 1 \<and>
   stderr (cli (stub_delegate None None)
      (Questions (delete_args ''questions.txt'' 0))
      sample_fs) = [''No action specified. Use --list, --add, or --delete.'']"
  using delete_zero_no_action [where fs = sample_fs and p = "''questions.txt''"
      and d = "stub_delegate None None"]
  by (simp add: sample_fs_def path_exists_def)

subsection \<open>The run subcommand: validation\<close>

lemma calls_except_clauses: "calls (except_clauses e fs cs) = cs"
  by (cases "(e, fs, cs)" rule: except_clauses.cases) (simp_all add: fail_def propagate_def)

lemma validate_Inl_cases:
  "validate a ro fs = Inl e \<Longrightarrow>
     e = Exn FileNotFoundError (''Questions file not found: '' @ arg_questions a) \<or>
     e = Exn FileNotFoundError (''Persona file not found: '' @ arg_persona a) \<or>
     e = Exn FileNotFoundError (''Output directory does not exist: '' @ dirname (arg_output a)) \<or>
     e = Exn ValueError ''You must provide at least 2 response options.'' \<or>
     e = Exn ValueError ''Temperature must be between 0.0 and 2.0''"
  by (auto simp: validate_def check_questions_def check_persona_def check_output_dir_def
      check_response_options_def check_temperature_def Let_def split: sum.splits if_splits)

lemma cli_run_invalid:
  "validate a (parse_response_options (arg_response_options a)) fs = Inl e \<Longrightarrow>
     cli d (Run a) fs = except_clauses e fs []"
  by (simp add: cli_def cli_run_def)

lemma cli_run_construct_raises:
  "validate a (parse_response_options (arg_response_options a)) fs = Inr u \<Longrightarrow>
   SurveyResponder d (make_config a (parse_response_options (arg_response_options a))) fs = Inl e \<Longrightarrow>
     cli d (Run a) fs =
       except_clauses e fs [Construct (make_config a (parse_response_options (arg_response_options a)))]"
  by (simp add: cli_def cli_run_def Let_def)

lemma cli_run_run_write:
  "validate a (parse_response_options (arg_response_options a)) fs = Inr u \<Longrightarrow>
   SurveyResponder d (make_config a (parse_response_options (arg_response_options a))) fs = Inr r \<Longrightarrow>
   run_write d r (arg_output a) fs = (x, fs') \<Longrightarrow>
     cli d (Run a) fs =
       \<lparr>outcome = (case x of None \<Rightarrow> Returned | Some e \<Rightarrow> Uncaught e), stdout = [], stderr = [],
        fsys = fs',
        calls = [Construct (make_config a (parse_response_options (arg_response_options a))),
                 RunWrite (arg_output a)]\<rparr>"
  by (cases x) (simp_all add: cli_def cli_run_def Let_def propagate_def)

lemma validate_Inr_iff:
  "validate a ro fs = Inr () \<longleftrightarrow>
     path_exists fs (arg_questions a) \<and> path_exists fs (arg_persona a) \<and>
     (dirname (arg_output a) = [] \<or> path_exists fs (dirname (arg_output a))) \<and>
     (ro = None \<or> 2 < length (the ro)) \<and>
     float_le (Finite 0) (arg_temperature a) \<and> float_le (arg_temperature a) (Finite 2)"
  by (auto simp: validate_def check_questions_def check_persona_def check_output_dir_def
      check_response_options_def check_temperature_def Let_def split: sum.splits if_splits)

lemma cli_run_rejected:
  assumes "validate a (parse_response_options (arg_response_options a)) fs \<noteq> Inr ()"
  shows "outcome (cli d (Run a) fs) = Exited 1 \<and> calls (cli d (Run a) fs) = [] \<and>
         fsys (cli d (Run a) fs) = fs"
proof -
  from assms obtain e where e: "validate a (parse_response_options (arg_response_options a)) fs = Inl e"
    by (cases "validate a (parse_response_options (arg_response_options a)) fs") auto
  from validate_Inl_cases [OF e] show ?thesis
    unfolding cli_run_invalid [OF e] by (auto simp: fail_def)
qed

lemma cli_run_constructs:
  assumes "validate a (parse_response_options (arg_response_options a)) fs = Inr ()"
  shows "calls (cli d (Run a) fs) \<noteq> [] \<and>
         hd (calls (cli d (Run a) fs)) =
           Construct (make_config a (parse_response_options (arg_response_options a)))"
proof (cases "SurveyResponder d (make_config a (parse_response_options (arg_response_options a))) fs")
  case (Inl e)
  show ?thesis
    unfolding cli_run_construct_raises [OF assms Inl] by (simp add: calls_except_clauses)
next
  case (Inr r)
  obtain x fs' where "run_write d r (arg_output a) fs = (x, fs')"
    by (cases "run_write d r (arg_output a) fs")
  from cli_run_run_write [OF assms Inr this] show ?thesis by simp
qed

lemma cli_run_calls_config:
  "Construct cfg \<in> set (calls (cli d (Run a) fs)) \<Longrightarrow>
     cfg = make_config a (parse_response_options (arg_response_options a))"
proof -
  let ?ro = "parse_response_options (arg_response_options a)"
  assume c: "Construct cfg \<in> set (calls (cli d (Run a) fs))"
  show ?thesis
  proof (cases "validate a ?ro fs")
    case (Inl e)
    with c show ?thesis by (simp add: cli_run_invalid calls_except_clauses)
  next
    case v: (Inr u)
    show ?thesis
    proof (cases "SurveyResponder d (make_config a ?ro) fs")
      case (Inl e)
      with c v show ?thesis by (simp add: cli_run_construct_raises calls_except_clauses)
    next
      case (Inr r)
      obtain x fs' where "run_write d r (arg_output a) fs = (x, fs')"
        by (cases "run_write d r (arg_output a) fs")
      from cli_run_run_write [OF v Inr this] c show ?thesis by simp
    qed
  qed
qed

text \<open>The definitions that a concrete run of the \<open>run\<close> subcommand unfolds.\<close>

lemmas run_defs = cli_def cli_run_def validate_def check_questions_def check_persona_def
      check_output_dir_def check_response_options_def check_temperature_def dirname_def
      path_exists_def sample_fs_def default_run_args_def stub_delegate_def
      parse_response_options_def str_truthy_def make_config_def propagate_def fail_def

text \<open>
  Claim C8. For every \<open>run\<close> invocation where the questions file does not exist, or
  the persona file does not exist, or the output path has a non-empty directory component
  that does not exist, the program exits with status 1 and calls neither the constructor
  of the delegate nor its \<open>run_write\<close>; what it prints to standard error is the file
  error of the first of these checks that fails.
\<close>

theorem missing_files_exit:
  assumes "\<not> path_exists fs (arg_questions a) \<or> \<not> path_exists fs (arg_persona a) \<or>
           (dirname (arg_output a) \<noteq> [] \<and> \<not> path_exists fs (dirname (arg_output a)))"
  shows "outcome (cli d (Run a) fs) = Exited 1 \<and> calls (cli d (Run a) fs) = [] \<and>
         stderr (cli d (Run a) fs) \<in>
           {[''File Error: Questions file not found: '' @ arg_questions a],
            [''File Error: Persona file not found: '' @ arg_persona a],
            [''File Error: Output directory does not exist: '' @ dirname (arg_output a)]}"
proof -
  let ?ro = "parse_response_options (arg_response_options a)"
  from assms have "validate a ?ro fs \<noteq> Inr ()"
    by (auto simp: validate_Inr_iff)
  then obtain e where e: "validate a ?ro fs = Inl e"
    by (cases "validate a ?ro fs") auto
  with assms have "e = Exn FileNotFoundError (''Questions file not found: '' @ arg_questions a) \<or>
     e = Exn FileNotFoundError (''Persona file not found: '' @ arg_persona a) \<or>
     e = Exn FileNotFoundError (''Output directory does not exist: '' @ dirname (arg_output a))"
    by (auto simp: validate_def check_questions_def check_persona_def check_output_dir_def
      Let_def split: sum.splits if_splits)
  then show ?thesis
    unfolding cli_run_invalid [OF e] by (auto simp: fail_def)
qed

theorem missing_files_exit_witness:
  "dirname ''out/results.csv'' = ''out'' \<and>
   \<not> path_exists sample_fs ''out'' \<and>
   outcome (cli (stub_delegate None None)
      (Run (default_run_args\<lparr>arg_output := ''out/results.csv''\<rparr>)) sample_fs) = Exited 1 \<and>
   calls (cli (stub_delegate None None)
      (Run (default_run_args\<lparr>arg_output := ''out/results.csv''\<rparr>)) sample_fs) = [] \<and>
   stderr (cli (stub_delegate None None)
      (Run (default_run_args\<lparr>arg_output := ''out/results.csv''\<rparr>)) sample_fs) =
     [''File Error: Output directory does not exist: out'']"
  using missing_files_exit [where fs = sample_fs
      and a = "default_run_args\<lparr>arg_output := ''out/results.csv''\<rparr>"
      and d = "stub_delegate None None"]
  by (simp add: run_defs)

text \<open>
  Claim C6 as stated does not hold for every invocation: the file checks come first, so
  with two response options and a missing questions file the program prints a file error,
  not an input error.
\<close>

theorem response_options_count_counterexample:
  "parse_response_options (Some ''A,B'') = Some [''A'', ''B''] \<and>
   cli (stub_delegate None None)
       (Run (default_run_args\<lparr>arg_questions := ''missing.txt'', arg_response_options := Some ''A,B''\<rparr>))
       sample_fs =
     \<lparr>outcome = Exited 1, stdout = [],
      stderr = [''File Error: Questions file not found: missing.txt''],
      fsys = sample_fs, calls = []\<rparr>"
  by (simp add: cli_def cli_run_def validate_def check_questions_def path_exists_def
      sample_fs_def default_run_args_def fail_def parse_response_options_def str_truthy_def
      strip_def lstrip_def rstrip_def isspace_def whitespace_def)

text \<open>
  Claim C6 (amended). For every \<open>run\<close> invocation where response options are supplied
  and parse to a list of length 2 or fewer, the program exits with status 1 without
  calling the constructor of the delegate, and when the questions file, the persona file
  and the output directory pass their checks, what it prints is the input error of the
  response options; when the parsed list has more than 2 entries, this validation passes.
\<close>

theorem response_options_count:
  assumes "parse_response_options (arg_response_options a) = Some l"
  shows "(length l \<le> 2 \<longrightarrow>
        outcome (cli d (Run a) fs) = Exited 1 \<and> calls (cli d (Run a) fs) = [] \<and>
        (path_exists fs (arg_questions a) \<and> path_exists fs (arg_persona a) \<and>
         (dirname (arg_output a) = [] \<or> path_exists fs (dirname (arg_output a))) \<longrightarrow>
           stderr (cli d (Run a) fs) = [''Input Error: You must provide at least 2 response options.''])) \<and>
     (2 < length l \<longrightarrow> check_response_options (Some l) = Inr ())"
proof -
  let ?ro = "parse_response_options (arg_response_options a)"
  have rejected: "outcome (cli d (Run a) fs) = Exited 1 \<and> calls (cli d (Run a) fs) = []"
    if "length l \<le> 2"
  proof -
    from that assms have "validate a ?ro fs \<noteq> Inr ()"
      by (simp add: validate_Inr_iff)
    from cli_run_rejected [OF this, of d] show ?thesis by simp
  qed
  have message: "stderr (cli d (Run a) fs) = [''Input Error: You must provide at least 2 response options.'']"
    if "length l \<le> 2" and "path_exists fs (arg_questions a) \<and> path_exists fs (arg_persona a) \<and>
         (dirname (arg_output a) = [] \<or> path_exists fs (dirname (arg_output a)))"
  proof -
    from that assms have "validate a ?ro fs =
        Inl (Exn ValueError ''You must provide at least 2 response options.'')"
      by (auto simp: validate_def check_questions_def check_persona_def check_output_dir_def
          check_response_options_def Let_def)
    then show ?thesis by (simp add: cli_run_invalid fail_def)
  qed
  have "check_response_options (Some l) = Inr ()" if "2 < length l"
    using that by (simp add: check_response_options_def)
  with rejected message show ?thesis by blast
qed

theorem response_options_count_witness:
  "parse_response_options (Some ''Yes,No'') = Some [''Yes'', ''No''] \<and>
   outcome (cli (stub_delegate None None)
      (Run (default_run_args\<lparr>arg_response_options := Some ''Yes,No''\<rparr>)) sample_fs) = Exited 1 \<and>
   calls (cli (stub_delegate None None)
      (Run (default_run_args\<lparr>arg_response_options := Some ''Yes,No''\<rparr>)) sample_fs) = [] \<and>
   stderr (cli (stub_delegate None None)
      (Run (default_run_args\<lparr>arg_response_options := Some ''Yes,No''\<rparr>)) sample_fs) =
     [''Input Error: You must provide at least 2 response options.''] \<and>
   parse_response_options (Some ''A,B,C'') = Some [''A'', ''B'', ''C''] \<and>
   check_response_options (Some [''A'', ''B'', ''C'']) = Inr ()"
  using
    response_options_count [where a = "default_run_args\<lparr>arg_response_options := Some ''Yes,No''\<rparr>"
      and l = "[''Yes'', ''No'']" and fs = sample_fs and d = "stub_delegate None None"]
    response_options_count [where a = "default_run_args\<lparr>arg_response_options := Some ''A,B,C''\<rparr>"
      and l = "[''A'', ''B'', ''C'']" and fs = sample_fs and d = "stub_delegate None None"]
  by (simp add: run_defs strip_defs)

text \<open>
  Claim C7. For every \<open>run\<close> invocation, a temperature strictly below 0.0 or strictly
  above 2.0 is rejected: the program exits with status 1 without calling the constructor
  of the delegate, and the temperature validation raises. The boundary values 0.0 and 2.0
  and every value in between are accepted by the temperature validation, and when the
  other validations pass as well the constructor of the delegate is called with that
  temperature.
\<close>

theorem temperature_range:
  "(float_lt (arg_temperature a) (Finite 0) \<or> float_lt (Finite 2) (arg_temperature a) \<longrightarrow>
      outcome (cli d (Run a) fs) = Exited 1 \<and> calls (cli d (Run a) fs) = [] \<and>
      check_temperature (arg_temperature a) =
        Inl (Exn ValueError ''Temperature must be between 0.0 and 2.0'')) \<and>
   (float_le (Finite 0) (arg_temperature a) \<and> float_le (arg_temperature a) (Finite 2) \<longrightarrow>
      check_temperature (arg_temperature a) = Inr () \<and>
      (path_exists fs (arg_questions a) \<and> path_exists fs (arg_persona a) \<and>
       (dirname (arg_output a) = [] \<or> path_exists fs (dirname (arg_output a))) \<and>
       check_response_options (parsed_options a) = Inr () \<longrightarrow>
         calls (cli d (Run a) fs) \<noteq> [] \<and>
         hd (calls (cli d (Run a) fs)) = Construct (run_config a) \<and>
         temperature (run_config a) = arg_temperature a))"
proof -
  let ?t = "arg_temperature a"
  have out: "\<not> (float_le (Finite 0) ?t \<and> float_le ?t (Finite 2))"
    if "float_lt ?t (Finite 0) \<or> float_lt (Finite 2) ?t"
    using that by (cases ?t) auto
  then have "validate a (parsed_options a) fs \<noteq> Inr ()"
    if "float_lt ?t (Finite 0) \<or> float_lt (Finite 2) ?t"
    using that by (simp add: validate_Inr_iff)
  from cli_run_rejected [OF this, of d] out
  have rejected: "outcome (cli d (Run a) fs) = Exited 1 \<and> calls (cli d (Run a) fs) = [] \<and>
      check_temperature ?t = Inl (Exn ValueError ''Temperature must be between 0.0 and 2.0'')"
    if "float_lt ?t (Finite 0) \<or> float_lt (Finite 2) ?t"
    using that by (auto simp: check_temperature_def)
  have accepted: "check_temperature ?t = Inr ()"
    if "float_le (Finite 0) ?t \<and> float_le ?t (Finite 2)"
    using that by (simp add: check_temperature_def)
  have constructed: "calls (cli d (Run a) fs) \<noteq> [] \<and>
      hd (calls (cli d (Run a) fs)) = Construct (run_config a) \<and>
      temperature (run_config a) = ?t"
    if "float_le (Finite 0) ?t \<and> float_le ?t (Finite 2)"
      and "path_exists fs (arg_questions a) \<and> path_exists fs (arg_persona a) \<and>
       (dirname (arg_output a) = [] \<or> path_exists fs (dirname (arg_output a))) \<and>
       check_response_options (parsed_options a) = Inr ()"
  proof -
    from that have "validate a (parsed_options a) fs = Inr ()"
      by (auto simp: validate_Inr_iff check_response_options_def split: if_splits)
    from cli_run_constructs [OF this, of d] show ?thesis
      by (simp add: make_config_def)
  qed
  from rejected accepted constructed show ?thesis by blast
qed

theorem temperature_range_witness:
  "float_lt (Finite 2) (Finite 3) \<and>
   outcome (cli (stub_delegate None None)
      (Run (default_run_args\<lparr>arg_temperature := Finite 3\<rparr>)) sample_fs) = Exited 1 \<and>
   calls (cli (stub_delegate None None)
      (Run (default_run_args\<lparr>arg_temperature := Finite 3\<rparr>)) sample_fs) = [] \<and>
   float_lt NegInf (Finite 0) \<and>
   outcome (cli (stub_delegate None None)
      (Run (default_run_args\<lparr>arg_temperature := NegInf\<rparr>)) sample_fs) = Exited 1 \<and>
   check_temperature (Finite 0) = Inr () \<and>
   check_temperature (Finite 2) = Inr () \<and>
   check_temperature (Finite 1) = Inr () \<and>
   hd (calls (cli (stub_delegate None None)
      (Run (default_run_args\<lparr>arg_temperature := Finite 2\<rparr>)) sample_fs)) =
     Construct (run_config (default_run_args\<lparr>arg_temperature := Finite 2\<rparr>))"
  using
    temperature_range [where a = "default_run_args\<lparr>arg_temperature := Finite 3\<rparr>"
      and fs = sample_fs and d = "stub_delegate None None"]
    temperature_range [where a = "default_run_args\<lparr>arg_temperature := NegInf\<rparr>"
      and fs = sample_fs and d = "stub_delegate None None"]
    temperature_range [where a = "default_run_args\<lparr>arg_temperature := Finite 0\<rparr>"
      and fs = sample_fs and d = "stub_delegate None None"]
    temperature_range [where a = "default_run_args\<lparr>arg_temperature := Finite 2\<rparr>"
      and fs = sample_fs and d = "stub_delegate None None"]
    temperature_range [where a = default_run_args
      and fs = sample_fs and d = "stub_delegate None None"]
  by (simp add: run_defs)

text \<open>
  Claim C10. For every \<open>run\<close> invocation where \<open>--response-options\<close> is the empty
  string, the parsed response options remain \<open>None\<close>: the option is treated as absent
  and not as an empty list. So the validation of the number of options passes, the run is
  the same as the run without the option, every constructor call passes
  \<open>response_options = None\<close>, and when the other validations pass the constructor is
  called, with \<open>response_options = None\<close>.
\<close>

theorem empty_response_options_absent:
  assumes "arg_response_options a = Some []"
  shows "parse_response_options (arg_response_options a) = None \<and>
     check_response_options (parse_response_options (arg_response_options a)) = Inr () \<and>
     cli d (Run a) fs = cli d (Run (a\<lparr>arg_response_options := None\<rparr>)) fs \<and>
     (\<forall>cfg. Construct cfg \<in> set (calls (cli d (Run a) fs)) \<longrightarrow> response_options cfg = None) \<and>
     (path_exists fs (arg_questions a) \<and> path_exists fs (arg_persona a) \<and>
      (dirname (arg_output a) = [] \<or> path_exists fs (dirname (arg_output a))) \<and>
      float_le (Finite 0) (arg_temperature a) \<and> float_le (arg_temperature a) (Finite 2) \<longrightarrow>
        hd (calls (cli d (Run a) fs)) = Construct (make_config a None) \<and>
        calls (cli d (Run a) fs) \<noteq> [])"
proof -
  have parse: "parse_response_options (arg_response_options a) = None"
    using assms by (simp add: parse_response_options_def str_truthy_def)
  have check: "check_response_options None = Inr ()"
    by (simp add: check_response_options_def)
  have same: "cli d (Run a) fs = cli d (Run (a\<lparr>arg_response_options := None\<rparr>)) fs"
  proof -
    let ?a' = "a\<lparr>arg_response_options := None\<rparr>"
    have parse': "parse_response_options (arg_response_options ?a') = None"
      by (simp add: parse_response_options_def str_truthy_def)
    have v: "validate ?a' None fs = validate a None fs"
      by (simp add: validate_def check_questions_def check_persona_def check_output_dir_def
          Let_def split: sum.split)
    have m: "make_config ?a' None = make_config a None"
      by (simp add: make_config_def)
    show ?thesis
    proof (cases "validate a None fs")
      case (Inl e)
      with v parse parse' show ?thesis by (simp add: cli_run_invalid)
    next
      case va: (Inr u)
      show ?thesis
      proof (cases "SurveyResponder d (make_config a None) fs")
        case (Inl e)
        with va v m parse parse' show ?thesis by (simp add: cli_run_construct_raises)
      next
        case (Inr r)
        obtain x fs' where "run_write d r (arg_output a) fs = (x, fs')"
          by (cases "run_write d r (arg_output a) fs")
        with Inr va v m parse parse' show ?thesis by (simp add: cli_run_run_write)
      qed
    qed
  qed
  have cfgs: "response_options cfg = None" if "Construct cfg \<in> set (calls (cli d (Run a) fs))" for cfg
    using cli_run_calls_config [OF that] parse by (simp add: make_config_def)
  have built: "hd (calls (cli d (Run a) fs)) = Construct (make_config a None) \<and>
        calls (cli d (Run a) fs) \<noteq> []"
    if "path_exists fs (arg_questions a) \<and> path_exists fs (arg_persona a) \<and>
      (dirname (arg_output a) = [] \<or> path_exists fs (dirname (arg_output a))) \<and>
      float_le (Finite 0) (arg_temperature a) \<and> float_le (arg_temperature a) (Finite 2)"
  proof -
    from that parse have "validate a (parse_response_options (arg_response_options a)) fs = Inr ()"
      by (simp add: validate_Inr_iff)
    from cli_run_constructs [OF this, of d] parse show ?thesis by simp
  qed
  from parse check same cfgs built show ?thesis by simp
qed

theorem empty_response_options_absent_witness:
  "parse_response_options (Some []) = None \<and>
   calls (cli (stub_delegate None None)
      (Run (default_run_args\<lparr>arg_response_options := Some []\<rparr>)) sample_fs) =
     [Construct (make_config default_run_args None), RunWrite ''results.csv''] \<and>
   response_options (make_config default_run_args None) = None \<and>
   outcome (cli (stub_delegate None None)
      (Run (default_run_args\<lparr>arg_response_options := Some []\<rparr>)) sample_fs) = Returned"
  using empty_response_options_absent
      [where a = "default_run_args\<lparr>arg_response_options := Some []\<rparr>"
        and fs = sample_fs and d = "stub_delegate None None"]
  by (simp add: run_defs)

subsection \<open>The run subcommand: exceptions\<close>

text \<open>
  Claim C1 as stated does not hold: \<open>responder.run_write(args.output)\<close> stands after
  the \<open>try\<close> statement, so an exception that it raises, a \<open>ConnectionError\<close>
  included, leaves \<open>cli\<close> with nothing printed by \<open>cli\<close>; and an exception of the
  constructor that does not derive from \<open>Exception\<close> is not caught either.
\<close>

theorem run_error_handling_counterexample:
  "outcome (cli (stub_delegate None (Some (Exn OtherException ''boom'')))
              (Run default_run_args) sample_fs) = Uncaught (Exn OtherException ''boom'') \<and>
   stderr (cli (stub_delegate None (Some (Exn OtherException ''boom'')))
              (Run default_run_args) sample_fs) = [] \<and>
   outcome (cli (stub_delegate None (Some (Exn ConnectionError ''refused'')))
              (Run default_run_args) sample_fs) = Uncaught (Exn ConnectionError ''refused'') \<and>
   stderr (cli (stub_delegate None (Some (Exn ConnectionError ''refused'')))
              (Run default_run_args) sample_fs) = [] \<and>
   outcome (cli (stub_delegate (Some (Exn NonException ''KeyboardInterrupt'')) None)
              (Run default_run_args) sample_fs) =
     Uncaught (Exn NonException ''KeyboardInterrupt'') \<and>
   stderr (cli (stub_delegate (Some (Exn NonException ''KeyboardInterrupt'')) None)
              (Run default_run_args) sample_fs) = []"
  by (simp add: run_defs)

text \<open>
  Claim C1 (amended). For every execution of the \<open>run\<close> subcommand, an exception
  raised inside the \<open>try\<close> statement, that is by a validation or by the constructor of
  the delegate, is handled by its class: a \<open>FileNotFoundError\<close>, a \<open>ValueError\<close> or
  a \<open>ConnectionError\<close> is printed to standard error with its prefix (\<open>File Error\<close>,
  \<open>Input Error\<close>, \<open>Connection Error\<close>) and any other exception deriving from
  \<open>Exception\<close> is printed as \<open>Unexpected Error\<close>, each with exit status 1 and
  without a call of \<open>run_write\<close>. An exception that does not derive from
  \<open>Exception\<close>, and any exception raised by \<open>run_write\<close>, is not caught: it leaves
  \<open>cli\<close>, which prints nothing for it.
\<close>

theorem run_error_handling:
  "(validate a (parsed_options a) fs = Inl (Exn c m) \<longrightarrow>
      (c = FileNotFoundError \<or> c = ValueError) \<and>
      outcome (cli d (Run a) fs) = Exited 1 \<and>
      stderr (cli d (Run a) fs) =
        [(if c = FileNotFoundError then ''File Error: '' else ''Input Error: '') @ m] \<and>
      calls (cli d (Run a) fs) = []) \<and>
   (validate a (parsed_options a) fs = Inr () \<and>
    SurveyResponder d (run_config a) fs = Inl (Exn c m) \<longrightarrow>
      (c = FileNotFoundError \<longrightarrow>
         outcome (cli d (Run a) fs) = Exited 1 \<and>
         stderr (cli d (Run a) fs) = [''File Error: '' @ m]) \<and>
      (c = ValueError \<longrightarrow>
         outcome (cli d (Run a) fs) = Exited 1 \<and>
         stderr (cli d (Run a) fs) = [''Input Error: '' @ m]) \<and>
      (c = ConnectionError \<longrightarrow>
         outcome (cli d (Run a) fs) = Exited 1 \<and>
         stderr (cli d (Run a) fs) = [''Connection Error: '' @ m]) \<and>
      (c = OtherException \<longrightarrow>
         outcome (cli d (Run a) fs) = Exited 1 \<and>
         stderr (cli d (Run a) fs) = [''Unexpected Error: '' @ m]) \<and>
      (c = NonException \<longrightarrow>
         outcome (cli d (Run a) fs) = Uncaught (Exn c m) \<and>
         stderr (cli d (Run a) fs) = []) \<and>
      calls (cli d (Run a) fs) = [Construct (run_config a)]) \<and>
   (validate a (parsed_options a) fs = Inr () \<and>
    SurveyResponder d (run_config a) fs = Inr r \<and>
    run_write d r (arg_output a) fs = (Some e, fs') \<longrightarrow>
      outcome (cli d (Run a) fs) = Uncaught e \<and>
      stderr (cli d (Run a) fs) = [])"
proof -
  have invalid: "(c = FileNotFoundError \<or> c = ValueError) \<and>
      outcome (cli d (Run a) fs) = Exited 1 \<and>
      stderr (cli d (Run a) fs) =
        [(if c = FileNotFoundError then ''File Error: '' else ''Input Error: '') @ m] \<and>
      calls (cli d (Run a) fs) = []"
    if v: "validate a (parsed_options a) fs = Inl (Exn c m)"
    using validate_Inl_cases [OF v] unfolding cli_run_invalid [OF v]
    by (auto simp: fail_def)
  have construct: "cli d (Run a) fs = except_clauses (Exn c m) fs [Construct (run_config a)]"
    if "validate a (parsed_options a) fs = Inr ()"
      and "SurveyResponder d (run_config a) fs = Inl (Exn c m)"
    using that by (rule cli_run_construct_raises)
  have run: "outcome (cli d (Run a) fs) = Uncaught e \<and> stderr (cli d (Run a) fs) = []"
    if "validate a (parsed_options a) fs = Inr ()"
      and "SurveyResponder d (run_config a) fs = Inr r"
      and "run_write d r (arg_output a) fs = (Some e, fs')"
    using cli_run_run_write [OF that] by simp
  show ?thesis
  proof (intro conjI impI)
    show "c = FileNotFoundError \<or> c = ValueError"
      if "validate a (parsed_options a) fs = Inl (Exn c m)"
      using invalid [OF that] by simp
  qed (use invalid run in \<open>auto simp: construct fail_def propagate_def calls_except_clauses\<close>)
qed

theorem run_error_handling_witness:
  "validate (default_run_args\<lparr>arg_questions := ''missing.txt''\<rparr>)
      (parsed_options (default_run_args\<lparr>arg_questions := ''missing.txt''\<rparr>)) sample_fs =
     Inl (Exn FileNotFoundError ''Questions file not found: missing.txt'') \<and>
   stderr (cli (stub_delegate None None)
      (Run (default_run_args\<lparr>arg_questions := ''missing.txt''\<rparr>)) sample_fs) =
     [''File Error: Questions file not found: missing.txt''] \<and>
   validate default_run_args (parsed_options default_run_args) sample_fs = Inr () \<and>
   SurveyResponder (stub_delegate (Some (Exn ConnectionError ''refused'')) None)
      (run_config default_run_args) sample_fs = Inl (Exn ConnectionError ''refused'') \<and>
   outcome (cli (stub_delegate (Some (Exn ConnectionError ''refused'')) None)
      (Run default_run_args) sample_fs) = Exited 1 \<and>
   stderr (cli (stub_delegate (Some (Exn ConnectionError ''refused'')) None)
      (Run default_run_args) sample_fs) = [''Connection Error: refused''] \<and>
   SurveyResponder (stub_delegate None (Some (Exn OtherException ''boom'')))
      (run_config default_run_args) sample_fs = Inr () \<and>
   run_write (stub_delegate None (Some (Exn OtherException ''boom''))) () ''results.csv'' sample_fs =
     (Some (Exn OtherException ''boom''), sample_fs) \<and>
   outcome (cli (stub_delegate None (Some (Exn OtherException ''boom'')))
      (Run default_run_args) sample_fs) = Uncaught (Exn OtherException ''boom'')"
  using
    run_error_handling [where a = "default_run_args\<lparr>arg_questions := ''missing.txt''\<rparr>"
      and fs = sample_fs and c = FileNotFoundError
      and m = "''Questions file not found: missing.txt''" and d = "stub_delegate None None"]
    run_error_handling [where a = default_run_args and fs = sample_fs and c = ConnectionError
      and m = "''refused''" and d = "stub_delegate (Some (Exn ConnectionError ''refused'')) None"]
    run_error_handling [where a = default_run_args and fs = sample_fs
      and d = "stub_delegate None (Some (Exn OtherException ''boom''))" and r = "()"
      and e = "Exn OtherException ''boom''" and fs' = sample_fs]
  by (simp add: validate_def check_questions_def check_persona_def
      check_output_dir_def check_response_options_def check_temperature_def dirname_def
      path_exists_def sample_fs_def default_run_args_def stub_delegate_def
      parse_response_options_def str_truthy_def make_config_def)

end
